theory Spec2Isabelle
  imports Complex_Main
begin

section \<open>Career Compass backend: data model\<close>

text \<open>
  The service of \<^verbatim>\<open>my-backend/main.py\<close>.  Pydantic models are records, Python
  dictionaries with literal keys are association lists in insertion order, and every
  exception the handlers can raise is a value of \<open>error\<close>.
\<close>

subsection \<open>Users\<close>

record User =
  username :: string
  email :: "string option"
  disabled :: "bool option"

record UserInDB = User +
  hashed_password :: string

subsection \<open>Quiz and profile models\<close>

record QuizAnswer =
  question_id :: string
  answer :: int

record QuizSubmission =
  answers :: "QuizAnswer list"

record PersonalityProfile =
  MBTI :: string
  OCEAN :: "(string \<times> int) list"
  interests :: "string list"

section \<open>Quiz classifier\<close>

text \<open>
  \<^verbatim>\<open>positive_answers = sum(1 for q in quiz_answers.answers if q.answer > 3)\<close> and
  \<^verbatim>\<open>positive_answers > len(quiz_answers.answers) / 2\<close>.  The division is Python's true
  division; comparing an integer with the quotient is exact, so the quotient is taken in
  the rationals.
\<close>

definition positive_answers :: "QuizSubmission \<Rightarrow> int" where
  "positive_answers quiz_answers =
     sum_list (map (\<lambda>q. 1) (filter (\<lambda>q. answer q > 3) (answers quiz_answers)))"

definition classify_personality :: "QuizSubmission \<Rightarrow> PersonalityProfile" where
  "classify_personality quiz_answers =
     (if (of_int (positive_answers quiz_answers) :: rat)
           > of_nat (length (answers quiz_answers)) / 2
      then \<lparr>MBTI = ''ESTJ'',
            OCEAN = [(''Openness'', 4), (''Conscientiousness'', 5), (''Extraversion'', 4),
                     (''Agreeableness'', 3), (''Neuroticism'', 2)],
            interests = [''Technology'', ''Leadership'', ''Problem Solving'']\<rparr>
      else \<lparr>MBTI = ''INFP'',
            OCEAN = [(''Openness'', 3), (''Conscientiousness'', 3), (''Extraversion'', 2),
                     (''Agreeableness'', 4), (''Neuroticism'', 3)],
            interests = [''Art'', ''Writing'', ''Helping Others'']\<rparr>)"

section \<open>Remaining response models\<close>

record CareerRecommendation =
  career :: string
  required_skills :: "string list"
  salary :: string
  growth_potential :: string
  future_trends :: "string list"

text \<open>The float literals of \<open>trend_score\<close> are kept as their decimal values.\<close>

record CareerTrendItem =
  trend_name :: string
  summary :: string
  status :: string
  trend_score :: rat

record Event =
  time :: string
  title :: string
  description :: string
  visual_prompt :: string
  media_type :: string
  media_url :: string

record TimelineResponse =
  session_id :: string
  person_id :: string
  timeline :: "Event list"

section \<open>The mock document\<close>

text \<open>
  What \<^verbatim>\<open>json.load\<close> returns for a standard JSON document: \<open>None\<close>, a bool, an int,
  a finite float (by its exact value), a str, a list, or a dict (its items in insertion
  order, looked up with \<open>map_of\<close>).
\<close>

datatype json =
    JNull
  | JBool bool
  | JInt int
  | JFloat rat
  | JStr string
  | JList "json list"
  | JObj "(string \<times> json) list"

text \<open>Python's truth value of such an object, as \<^verbatim>\<open>if not x\<close> tests it.\<close>

fun truthy :: "json \<Rightarrow> bool" where
  "truthy JNull = False"
| "truthy (JBool b) = b"
| "truthy (JInt i) = (i \<noteq> 0)"
| "truthy (JFloat f) = (f \<noteq> 0)"
| "truthy (JStr s) = (s \<noteq> [])"
| "truthy (JList xs) = (xs \<noteq> [])"
| "truthy (JObj kvs) = (kvs \<noteq> [])"

section \<open>Exceptions\<close>

text \<open>
  \<open>HTTPException status detail headers\<close> is FastAPI's exception, answered with that
  status.  The other constructors are the Python exceptions the handler bodies can raise
  on a document of unexpected shape (each one ends the request with a server error),
  and the framework's own refusals: \<open>RequestValidationError\<close> (422) for arguments that
  do not fit the endpoint's signature and \<open>NoMatchingRoute\<close> for a method and path no
  route serves.
\<close>

datatype error =
    HTTPException nat string "(string \<times> string) list"
  | AttributeError
  | KeyError string
  | TypeError
  | ValidationError
  | RequestValidationError
  | NoMatchingRoute

text \<open>\<^verbatim>\<open>d.get(k, default)\<close>: only a dict has the method.\<close>

fun py_get :: "json \<Rightarrow> string \<Rightarrow> json \<Rightarrow> error + json" where
  "py_get (JObj kvs) k dflt = Inr (case map_of kvs k of None \<Rightarrow> dflt | Some v \<Rightarrow> v)"
| "py_get _ k dflt = Inl AttributeError"

text \<open>\<^verbatim>\<open>d[k]\<close> with a string key.\<close>

fun py_getitem :: "json \<Rightarrow> string \<Rightarrow> error + json" where
  "py_getitem (JObj kvs) k = (case map_of kvs k of None \<Rightarrow> Inl (KeyError k) | Some v \<Rightarrow> Inr v)"
| "py_getitem _ k = Inl TypeError"

text \<open>
  The elements a \<^verbatim>\<open>for\<close> loop visits: the items of a list, the keys of a dict, the
  characters of a str; any other object is not iterable.
\<close>

fun py_iter :: "json \<Rightarrow> error + json list" where
  "py_iter (JList xs) = Inr xs"
| "py_iter (JObj kvs) = Inr (map (\<lambda>kv. JStr (fst kv)) kvs)"
| "py_iter (JStr s) = Inr (map (\<lambda>c. JStr [c]) s)"
| "py_iter _ = Inl TypeError"

section \<open>Process state\<close>

text \<open>
  The module-level state: the user table, the loaded document, and the generator behind
  \<^verbatim>\<open>uuid.uuid4()\<close>, modelled as the sequence \<open>entropy\<close> of identifiers it is going to
  produce together with the number \<open>draws\<close> of identifiers already taken.
\<close>

record world =
  users_db :: "(string \<times> UserInDB) list"
  combined_mock_data :: json
  entropy :: "nat \<Rightarrow> string"
  draws :: nat

definition seed_users :: "(string \<times> UserInDB) list" where
  "seed_users =
     [(''testuser'',
       \<lparr>username = ''testuser'', email = Some ''test@example.com'', disabled = Some False,
        hashed_password = ''fakehashedpassword''\<rparr>)]"

text \<open>
  Module initialisation.  The argument is the parsed content of
  \<^verbatim>\<open>combined_mock_data.json\<close>, or \<open>None\<close> when the file does not exist, in which case
  the document is the empty dict.
\<close>

definition startup :: "json option \<Rightarrow> (nat \<Rightarrow> string) \<Rightarrow> world" where
  "startup file gen =
     \<lparr>users_db = seed_users,
      combined_mock_data = (case file of None \<Rightarrow> JObj [] | Some doc \<Rightarrow> doc),
      entropy = gen,
      draws = 0\<rparr>"

definition uuid4 :: "world \<Rightarrow> string \<times> world" where
  "uuid4 w = (entropy w (draws w), w\<lparr>draws := Suc (draws w)\<rparr>)"

section \<open>Authentication stub\<close>

definition get_user :: "world \<Rightarrow> string \<Rightarrow> UserInDB option" where
  "get_user w uname = map_of (users_db w) uname"

definition verify_password :: "string \<Rightarrow> string \<Rightarrow> bool" where
  "verify_password plain_password hashed = (plain_password = hashed)"

text \<open>The source returns \<^verbatim>\<open>False\<close> or the user; \<open>None\<close> stands for \<^verbatim>\<open>False\<close>.\<close>

definition authenticate_user :: "world \<Rightarrow> string \<Rightarrow> string \<Rightarrow> UserInDB option" where
  "authenticate_user w uname password =
     (case get_user w uname of
        None \<Rightarrow> None
      | Some user \<Rightarrow>
          if \<not> verify_password password (hashed_password user) then None else Some user)"

text \<open>
  \<open>OAuth2PasswordBearer\<close>: the bearer token of the request, or the framework's 401 when
  the request carries none.
\<close>

definition oauth2_scheme :: "string option \<Rightarrow> error + string" where
  "oauth2_scheme authorization =
     (case authorization of
        None \<Rightarrow> Inl (HTTPException 401 ''Not authenticated'' [(''WWW-Authenticate'', ''Bearer'')])
      | Some token \<Rightarrow> Inr token)"

definition get_current_user :: "world \<Rightarrow> string \<Rightarrow> error + UserInDB" where
  "get_current_user w token =
     (case get_user w token of
        None \<Rightarrow> Inl (HTTPException 401 ''Invalid authentication credentials''
                      [(''WWW-Authenticate'', ''Bearer'')])
      | Some user \<Rightarrow> Inr user)"

section \<open>Requests and responses\<close>

record OAuth2PasswordRequestForm =
  form_username :: string
  form_password :: string

text \<open>
  The JSON bodies the handlers return, one constructor per shape: the token pair, a
  message, the quiz result (message, profile, user), the recommendations with the user,
  the trend list, the scenario with the user, the metric data with its insight, and the
  timeline.
\<close>

datatype response =
    TokenResponse string string
  | MessageResponse string
  | QuizResponse string PersonalityProfile string
  | RecommendResponse "CareerRecommendation list" string
  | TrendsResponse "CareerTrendItem list"
  | SimulationResponse json string
  | TrendDataResponse json string
  | Timeline TimelineResponse

type_synonym outcome = "(error + response) \<times> world"

section \<open>Handlers\<close>

definition login_for_access_token :: "world \<Rightarrow> OAuth2PasswordRequestForm \<Rightarrow> outcome" where
  "login_for_access_token w form_data =
     (case authenticate_user w (form_username form_data) (form_password form_data) of
        None \<Rightarrow>
          (Inl (HTTPException 401 ''Incorrect username or password''
                  [(''WWW-Authenticate'', ''Bearer'')]), w)
      | Some user \<Rightarrow> (Inr (TokenResponse (username user) ''bearer''), w))"

text \<open>The first function named \<^verbatim>\<open>read_root\<close>, registered for \<^verbatim>\<open>GET /\<close>.\<close>

definition read_root :: "world \<Rightarrow> outcome" where
  "read_root w = (Inr (MessageResponse ''Welcome to Career Compass API''), w)"

definition submit_quiz :: "world \<Rightarrow> QuizSubmission \<Rightarrow> UserInDB \<Rightarrow> outcome" where
  "submit_quiz w quiz_submission current_user =
     (let personality_profile = classify_personality quiz_submission
      in (Inr (QuizResponse ''Quiz submitted successfully'' personality_profile
                 (username current_user)), w))"

definition get_career_recommendations ::
    "world \<Rightarrow> PersonalityProfile \<Rightarrow> UserInDB \<Rightarrow> outcome" where
  "get_career_recommendations w profile current_user =
     (let recommendations =
        [\<lparr>career = ''AI Engineer'',
          required_skills = [''Python'', ''Machine Learning'', ''Deep Learning'', ''Cloud Platforms''],
          salary = ''$120,000 - $180,000'',
          growth_potential = ''High'',
          future_trends = [''Generative AI'', ''Ethical AI'', ''AI in Healthcare'']\<rparr>,
         \<lparr>career = ''Data Scientist'',
          required_skills = [''Python/R'', ''Statistics'', ''Data Visualization'', ''SQL''],
          salary = ''$110,000 - $170,000'',
          growth_potential = ''High'',
          future_trends = [''Big Data Analytics'', ''Predictive Modeling'', ''Data Governance'']\<rparr>,
         \<lparr>career = ''UX Designer'',
          required_skills = [''UI/UX Principles'', ''Wireframing'', ''Prototyping'', ''User Research''],
          salary = ''$80,000 - $130,000'',
          growth_potential = ''Medium-High'',
          future_trends = [''AI in UX'', ''Voice User Interfaces (VUI)'', ''Inclusive Design'']\<rparr>]
      in (Inr (RecommendResponse recommendations (username current_user)), w))"

text \<open>The first function named \<^verbatim>\<open>get_career_trends\<close>, for \<^verbatim>\<open>GET /careers/trends\<close>.\<close>

definition get_career_trends :: "world \<Rightarrow> UserInDB \<Rightarrow> outcome" where
  "get_career_trends w current_user =
     (let trends =
        [\<lparr>trend_name = ''AI Ethics Specialist'',
          summary = ''Growing demand for ethical considerations in AI development.'',
          status = ''rising'',
          trend_score = 95 / 100\<rparr>,
         \<lparr>trend_name = ''Green Energy Consultant'',
          summary = ''Increasing focus on sustainable energy solutions.'',
          status = ''rising'',
          trend_score = 88 / 100\<rparr>,
         \<lparr>trend_name = ''Blockchain Developer'',
          summary = ''Continued, but more specialized, demand in decentralized technologies.'',
          status = ''stable'',
          trend_score = 75 / 100\<rparr>,
         \<lparr>trend_name = ''Traditional Retail Manager'',
          summary = ''Facing challenges due to e-commerce growth and automation.'',
          status = ''falling'',
          trend_score = 30 / 100\<rparr>]
      in (Inr (TrendsResponse trends), w))"

definition generate_simulation :: "world \<Rightarrow> UserInDB \<Rightarrow> outcome" where
  "generate_simulation w current_user =
     (let scenario =
        JObj [(''description'', JStr (''You are leading a project to develop a new AI-powered recommendation system. '' @
                 ''A critical deadline is approaching, and your team is facing unexpected technical challenges.'')),
              (''micro_opportunities'', JList
                 [JObj [(''opportunity'', JStr ''Delegating tasks effectively to team members.''),
                        (''action'', JStr ''Delegate specific sub-tasks to optimize workflow.'')],
                  JObj [(''opportunity'', JStr ''Communicating with stakeholders about potential delays.''),
                        (''action'', JStr ''Prepare a concise update for stakeholders outlining challenges and revised timeline.'')]])]
      in (Inr (SimulationResponse scenario (username current_user)), w))"

text \<open>
  The second function named \<^verbatim>\<open>get_career_trends\<close>, for \<^verbatim>\<open>GET /api/trends\<close>.
  \<^verbatim>\<open>combined_mock_data.get(career)\<close> defaults to \<open>None\<close>, and so does the lookup of the
  metric.
\<close>

definition get_career_trends' :: "world \<Rightarrow> string \<Rightarrow> string \<Rightarrow> outcome" where
  "get_career_trends' w career_key metric =
     (case py_get (combined_mock_data w) career_key JNull of
        Inl e \<Rightarrow> (Inl e, w)
      | Inr career_data \<Rightarrow>
          if \<not> truthy career_data then (Inl (HTTPException 404 ''Career not found'' []), w)
          else
            (case py_get career_data ''trends'' (JObj []) of
               Inl e \<Rightarrow> (Inl e, w)
             | Inr trends \<Rightarrow>
                 (case py_get trends metric JNull of
                    Inl e \<Rightarrow> (Inl e, w)
                  | Inr trends_data \<Rightarrow>
                      if \<not> truthy trends_data
                      then (Inl (HTTPException 404
                                   (''Metric '' @ metric @ '' not found for this career'') []), w)
                      else
                        (let insight = ''This is a mock insight for '' @ career_key @ '' '' @ metric
                               @ '' trends. Gemini integration will fill missing data and provide real insights here later.''
                         in (Inr (TrendDataResponse trends_data insight), w)))))"

text \<open>The second function named \<^verbatim>\<open>read_root\<close>, also registered for \<^verbatim>\<open>GET /\<close>.\<close>

definition read_root' :: "world \<Rightarrow> outcome" where
  "read_root' w = (Inr (MessageResponse ''Welcome to the Career Trends API''), w)"

section \<open>Persona timeline\<close>

text \<open>
  How pydantic validates a value given for a \<open>str\<close> field is not part of the service
  (it accepts every str and, depending on its version, rejects or converts other values),
  so the validator is a parameter \<open>str_field\<close> of the handler: \<open>None\<close> is a rejected
  value.  \<open>Event(...)\<close> raises one \<open>ValidationError\<close> when some field is rejected.
\<close>

definition Event_init ::
    "(json \<Rightarrow> string option) \<Rightarrow> json \<Rightarrow> json \<Rightarrow> json \<Rightarrow> json \<Rightarrow> json \<Rightarrow> json \<Rightarrow> error + Event" where
  "Event_init str_field t_time t_title t_description t_visual_prompt t_media_type t_media_url =
     (case (str_field t_time, str_field t_title, str_field t_description,
            str_field t_visual_prompt, str_field t_media_type, str_field t_media_url) of
        (Some a, Some b, Some c, Some d, Some e, Some f) \<Rightarrow>
          Inr \<lparr>time = a, title = b, description = c, visual_prompt = d, media_type = e,
               media_url = f\<rparr>
      | _ \<Rightarrow> Inl ValidationError)"

text \<open>
  One pass of the loop body: \<^verbatim>\<open>event_template.get("media_url", "")\<close>, then the five
  subscripts in the order the arguments are written, then the construction.
\<close>

definition make_event :: "(json \<Rightarrow> string option) \<Rightarrow> json \<Rightarrow> error + Event" where
  "make_event str_field event_template =
     (case py_get event_template ''media_url'' (JStr []) of
        Inl e \<Rightarrow> Inl e
      | Inr t_media_url \<Rightarrow>
     (case py_getitem event_template ''time'' of
        Inl e \<Rightarrow> Inl e
      | Inr t_time \<Rightarrow>
     (case py_getitem event_template ''title'' of
        Inl e \<Rightarrow> Inl e
      | Inr t_title \<Rightarrow>
     (case py_getitem event_template ''description'' of
        Inl e \<Rightarrow> Inl e
      | Inr t_description \<Rightarrow>
     (case py_getitem event_template ''visual_prompt'' of
        Inl e \<Rightarrow> Inl e
      | Inr t_visual_prompt \<Rightarrow>
     (case py_getitem event_template ''media_type'' of
        Inl e \<Rightarrow> Inl e
      | Inr t_media_type \<Rightarrow>
          Event_init str_field t_time t_title t_description t_visual_prompt t_media_type
            t_media_url))))))"

text \<open>The \<^verbatim>\<open>for\<close> loop: \<open>timeline_events\<close> grows by one event per template.\<close>

fun build_timeline ::
    "(json \<Rightarrow> string option) \<Rightarrow> json list \<Rightarrow> Event list \<Rightarrow> error + Event list" where
  "build_timeline str_field [] timeline_events = Inr timeline_events"
| "build_timeline str_field (event_template # rest) timeline_events =
     (case make_event str_field event_template of
        Inl e \<Rightarrow> Inl e
      | Inr ev \<Rightarrow> build_timeline str_field rest (timeline_events @ [ev]))"

text \<open>
  \<open>scenario_params\<close> is accepted and never read.  The session identifier is drawn before
  the loop, so an exception raised inside the loop leaves the generator advanced.
\<close>

definition simulate_career ::
    "(json \<Rightarrow> string option) \<Rightarrow> world \<Rightarrow> string \<Rightarrow> json option \<Rightarrow> outcome" where
  "simulate_career str_field w pid scenario_params =
     (case py_get (combined_mock_data w) pid JNull of
        Inl e \<Rightarrow> (Inl e, w)
      | Inr persona \<Rightarrow>
          if \<not> truthy persona then (Inl (HTTPException 404 ''Persona not found'' []), w)
          else
            (let (sid, w') = uuid4 w
             in (case py_get persona ''events_template'' (JList []) of
                   Inl e \<Rightarrow> (Inl e, w')
                 | Inr templates \<Rightarrow>
                     (case py_iter templates of
                        Inl e \<Rightarrow> (Inl e, w')
                      | Inr ts \<Rightarrow>
                          (case build_timeline str_field ts [] of
                             Inl e \<Rightarrow> (Inl e, w')
                           | Inr timeline_events \<Rightarrow>
                               (Inr (Timeline \<lparr>session_id = sid, person_id = pid,
                                               timeline = timeline_events\<rparr>), w'))))))"

section \<open>Routing and dependencies\<close>

text \<open>
  The framework around the handlers.  A request is its method, its path, the bearer token
  of its \<open>Authorization\<close> header if there is one, and its parsed arguments (form fields,
  body or query parameters).
\<close>

datatype http_method = GET | POST

datatype input =
    NoInput
  | FormInput OAuth2PasswordRequestForm
  | QuizInput QuizSubmission
  | ProfileInput PersonalityProfile
  | TrendsInput string string
  | SimulateInput string "json option"

record request =
  req_method :: http_method
  req_path :: string
  req_token :: "string option"
  req_input :: input

text \<open>The nine decorated functions, in the order the module defines them.\<close>

datatype endpoint =
    E_login_for_access_token
  | E_read_root
  | E_submit_quiz
  | E_get_career_recommendations
  | E_get_career_trends
  | E_generate_simulation
  | E_get_career_trends'
  | E_read_root'
  | E_simulate_career

text \<open>
  Each \<^verbatim>\<open>@app.get\<close> and \<^verbatim>\<open>@app.post\<close> appends its route to the application's route
  list, so the list is in definition order.
\<close>

definition routes :: "(http_method \<times> string \<times> endpoint) list" where
  "routes =
     [(POST, ''/token'', E_login_for_access_token),
      (GET, ''/'', E_read_root),
      (POST, ''/quiz/submit'', E_submit_quiz),
      (GET, ''/careers/recommend'', E_get_career_recommendations),
      (GET, ''/careers/trends'', E_get_career_trends),
      (POST, ''/simulation/generate'', E_generate_simulation),
      (GET, ''/api/trends'', E_get_career_trends'),
      (GET, ''/'', E_read_root'),
      (GET, ''/simulate'', E_simulate_career)]"

text \<open>
  The router walks the route list from the front and hands the request to the first route
  whose method and path match.
\<close>

fun route_lookup ::
    "(http_method \<times> string \<times> endpoint) list \<Rightarrow> http_method \<Rightarrow> string \<Rightarrow> endpoint option" where
  "route_lookup [] m p = None"
| "route_lookup ((m', p', e) # rest) m p =
     (if m' = m \<and> p' = p then Some e else route_lookup rest m p)"

text \<open>
  \<^verbatim>\<open>Depends(get_current_user)\<close>, itself depending on \<open>oauth2_scheme\<close>: the dependency is
  resolved before the handler is called, and an exception it raises is the response.
\<close>

definition current_user_dependency :: "world \<Rightarrow> string option \<Rightarrow> error + UserInDB" where
  "current_user_dependency w authorization =
     (case oauth2_scheme authorization of
        Inl e \<Rightarrow> Inl e
      | Inr token \<Rightarrow> get_current_user w token)"

definition depends :: "world \<Rightarrow> error + 'a \<Rightarrow> ('a \<Rightarrow> outcome) \<Rightarrow> outcome" where
  "depends w dep body = (case dep of Inl e \<Rightarrow> (Inl e, w) | Inr x \<Rightarrow> body x)"

text \<open>
  Calling an endpoint: its dependencies first, then its own arguments, which must have
  the shape its signature declares.
\<close>

fun call_endpoint ::
    "(json \<Rightarrow> string option) \<Rightarrow> endpoint \<Rightarrow> world \<Rightarrow> request \<Rightarrow> outcome" where
  "call_endpoint sf E_login_for_access_token w r =
     (case req_input r of
        FormInput form_data \<Rightarrow> login_for_access_token w form_data
      | _ \<Rightarrow> (Inl RequestValidationError, w))"
| "call_endpoint sf E_read_root w r = read_root w"
| "call_endpoint sf E_submit_quiz w r =
     depends w (current_user_dependency w (req_token r))
       (\<lambda>current_user.
          case req_input r of
            QuizInput quiz_submission \<Rightarrow> submit_quiz w quiz_submission current_user
          | _ \<Rightarrow> (Inl RequestValidationError, w))"
| "call_endpoint sf E_get_career_recommendations w r =
     depends w (current_user_dependency w (req_token r))
       (\<lambda>current_user.
          case req_input r of
            ProfileInput profile \<Rightarrow> get_career_recommendations w profile current_user
          | _ \<Rightarrow> (Inl RequestValidationError, w))"
| "call_endpoint sf E_get_career_trends w r =
     depends w (current_user_dependency w (req_token r))
       (\<lambda>current_user. get_career_trends w current_user)"
| "call_endpoint sf E_generate_simulation w r =
     depends w (current_user_dependency w (req_token r))
       (\<lambda>current_user. generate_simulation w current_user)"
| "call_endpoint sf E_get_career_trends' w r =
     (case req_input r of
        TrendsInput career_key metric \<Rightarrow> get_career_trends' w career_key metric
      | _ \<Rightarrow> (Inl RequestValidationError, w))"
| "call_endpoint sf E_read_root' w r = read_root' w"
| "call_endpoint sf E_simulate_career w r =
     (case req_input r of
        SimulateInput pid scenario_params \<Rightarrow> simulate_career sf w pid scenario_params
      | _ \<Rightarrow> (Inl RequestValidationError, w))"

definition serve :: "(json \<Rightarrow> string option) \<Rightarrow> world \<Rightarrow> request \<Rightarrow> outcome" where
  "serve sf w r =
     (case route_lookup routes (req_method r) (req_path r) of
        None \<Rightarrow> (Inl NoMatchingRoute, w)
      | Some e \<Rightarrow> call_endpoint sf e w r)"

text \<open>The process serving a sequence of requests, one after the other.\<close>

fun serve_all :: "(json \<Rightarrow> string option) \<Rightarrow> world \<Rightarrow> request list \<Rightarrow> world" where
  "serve_all sf w [] = w"
| "serve_all sf w (r # rs) = serve_all sf (snd (serve sf w r)) rs"

text \<open>A validator that accepts exactly the strings, used to run the examples.\<close>

fun strict_str :: "json \<Rightarrow> string option" where
  "strict_str (JStr s) = Some s"
| "strict_str _ = None"

section \<open>Specification vocabulary\<close>

text \<open>
  The relation the specification states between an event template and the event made
  from it: the template is a dict whose \<open>time\<close>, \<open>title\<close>, \<open>description\<close>,
  \<open>visual_prompt\<close> and \<open>media_type\<close> entries are the strings the event holds, and the
  event's \<open>media_url\<close> is the template's string, or empty when the template has none.
\<close>

definition template_fields :: "json \<Rightarrow> Event \<Rightarrow> bool" where
  "template_fields event_template ev =
     (case event_template of
        JObj kvs \<Rightarrow>
          map_of kvs ''time'' = Some (JStr (time ev))
          \<and> map_of kvs ''title'' = Some (JStr (title ev))
          \<and> map_of kvs ''description'' = Some (JStr (description ev))
          \<and> map_of kvs ''visual_prompt'' = Some (JStr (visual_prompt ev))
          \<and> map_of kvs ''media_type'' = Some (JStr (media_type ev))
          \<and> (case map_of kvs ''media_url'' of
                None \<Rightarrow> media_url ev = []
              | Some v \<Rightarrow> v = JStr (media_url ev))
      | _ \<Rightarrow> False)"

section \<open>Example documents\<close>

text \<open>
  A small mock document: a career with a filled and an empty metric, and a key mapped
  to the empty dict.
\<close>

definition trends_doc :: json where
  "trends_doc =
     JObj [(''nurse'', JObj [(''trends'', JObj [(''salary'', JList [JInt 52000, JInt 61000]),
                                                (''demand'', JList [])])]),
           (''ghost'', JObj [])]"

text \<open>
  A generator for the examples, and a document with a persona that has two event
  templates (the first without \<open>media_url\<close>) and a persona without templates.
\<close>

definition example_uuids :: "nat \<Rightarrow> string" where
  "example_uuids n = replicate (Suc n) CHR ''u''"

definition persona_doc :: json where
  "persona_doc =
     JObj [(''ada'', JObj
              [(''events_template'', JList
                  [JObj [(''time'', JStr ''09:00''), (''title'', JStr ''Standup''),
                         (''description'', JStr ''Daily sync''),
                         (''visual_prompt'', JStr ''a team at a board''),
                         (''media_type'', JStr ''image'')],
                   JObj [(''time'', JStr ''14:00''), (''title'', JStr ''Review''),
                         (''description'', JStr ''Code review''),
                         (''visual_prompt'', JStr ''two screens''),
                         (''media_type'', JStr ''video''),
                         (''media_url'', JStr ''https://example.com/review.mp4'')]])]),
           (''bob'', JObj [(''trends'', JObj [])])]"

text \<open>A user table other than the seeded one.\<close>

definition second_users :: "(string \<times> UserInDB) list" where
  "second_users =
     [(''alice'', \<lparr>username = ''alice'', email = None, disabled = None,
                   hashed_password = ''pw''\<rparr>)]"

section \<open>Properties\<close>

lemma positive_answers_count:
  "positive_answers qs = int (length (filter (\<lambda>q. 3 < answer q) (answers qs)))"
proof -
  have "sum_list (map (\<lambda>q. 1::int) xs) = int (length xs)" for xs :: "QuizAnswer list"
    by (induction xs) simp_all
  then show ?thesis
    by (simp add: positive_answers_def)
qed

lemma exceeds_half:
  "((of_int (int k) :: rat) > of_nat n / 2) = (n < 2 * k)"
proof -
  have "((of_int (int k) :: rat) > of_nat n / 2) = ((of_nat n :: rat) < of_nat (2 * k))"
    by (simp add: field_simps)
  also have "\<dots> = (n < 2 * k)"
    by (simp only: of_nat_less_iff)
  finally show ?thesis .
qed

text \<open>
  C1.  The classifier counts the answers strictly greater than 3.  When that count
  exceeds half the number of answers the result is the fixed profile A (ESTJ), otherwise
  the fixed profile B (INFP); the empty submission gets profile B.
\<close>

theorem classify_personality_majority:
  "classify_personality qs =
     (if length (answers qs) < 2 * length (filter (\<lambda>q. 3 < answer q) (answers qs))
      then \<lparr>MBTI = ''ESTJ'',
            OCEAN = [(''Openness'', 4), (''Conscientiousness'', 5), (''Extraversion'', 4),
                     (''Agreeableness'', 3), (''Neuroticism'', 2)],
            interests = [''Technology'', ''Leadership'', ''Problem Solving'']\<rparr>
      else \<lparr>MBTI = ''INFP'',
            OCEAN = [(''Openness'', 3), (''Conscientiousness'', 3), (''Extraversion'', 2),
                     (''Agreeableness'', 4), (''Neuroticism'', 3)],
            interests = [''Art'', ''Writing'', ''Helping Others'']\<rparr>)
   \<and> classify_personality \<lparr>answers = []\<rparr> =
       \<lparr>MBTI = ''INFP'',
        OCEAN = [(''Openness'', 3), (''Conscientiousness'', 3), (''Extraversion'', 2),
                 (''Agreeableness'', 4), (''Neuroticism'', 3)],
        interests = [''Art'', ''Writing'', ''Helping Others'']\<rparr>"
proof -
  have half: "((of_int (positive_answers q) :: rat) > of_nat (length (answers q)) / 2)
      = (length (answers q) < 2 * length (filter (\<lambda>a. 3 < answer a) (answers q)))"
    for q :: QuizSubmission
    by (simp only: positive_answers_count exceeds_half)
  have empty: "\<not> ((of_int (positive_answers \<lparr>answers = []\<rparr>) :: rat)
      > of_nat (length (answers \<lparr>answers = []\<rparr>)) / 2)"
    by (simp add: positive_answers_def)
  show ?thesis
    unfolding classify_personality_def
    using half [of qs] empty by simp
qed

subsection \<open>Login\<close>

lemma authenticate_user_iff:
  "authenticate_user w n p = Some u \<longleftrightarrow> map_of (users_db w) n = Some u \<and> p = hashed_password u"
  by (auto simp: authenticate_user_def get_user_def verify_password_def split: option.splits)

lemma authenticate_user_None:
  "authenticate_user w n p = None \<longleftrightarrow> \<not> (\<exists>u. map_of (users_db w) n = Some u \<and> p = hashed_password u)"
  by (auto simp: authenticate_user_def get_user_def verify_password_def split: option.splits)

text \<open>
  C2.  Login succeeds exactly when the username is a key of the user table and the
  password equals the stored \<open>hashed_password\<close> verbatim; the token is then the username.
  Every other credential pair gets one and the same 401, whether the user is unknown or
  the password wrong.  (The token is the \<open>username\<close> field of the stored row, which the
  table keeps equal to its key.)
\<close>

theorem login_contract:
  assumes keys: "\<forall>k u. map_of (users_db w) k = Some u \<longrightarrow> username u = k"
  shows "login_for_access_token w f =
     (if (\<exists>u. map_of (users_db w) (form_username f) = Some u \<and> form_password f = hashed_password u)
      then (Inr (TokenResponse (form_username f) ''bearer''), w)
      else (Inl (HTTPException 401 ''Incorrect username or password''
                   [(''WWW-Authenticate'', ''Bearer'')]), w))"
proof (cases "authenticate_user w (form_username f) (form_password f)")
  case None
  then have "\<not> (\<exists>u. map_of (users_db w) (form_username f) = Some u \<and> form_password f = hashed_password u)"
    by (simp add: authenticate_user_None)
  with None show ?thesis
    by (simp add: login_for_access_token_def)
next
  case (Some u)
  then have u: "map_of (users_db w) (form_username f) = Some u" "form_password f = hashed_password u"
    by (simp_all add: authenticate_user_iff)
  from keys u(1) have "username u = form_username f"
    by blast
  with Some u show ?thesis
    by (auto simp: login_for_access_token_def)
qed

theorem login_contract_witness:
  "login_for_access_token (startup None (\<lambda>n. []))
       \<lparr>form_username = ''testuser'', form_password = ''fakehashedpassword''\<rparr>
     = (Inr (TokenResponse ''testuser'' ''bearer''), startup None (\<lambda>n. []))
   \<and> fst (login_for_access_token (startup None (\<lambda>n. []))
       \<lparr>form_username = ''testuser'', form_password = ''guess''\<rparr>)
     = Inl (HTTPException 401 ''Incorrect username or password'' [(''WWW-Authenticate'', ''Bearer'')])
   \<and> fst (login_for_access_token (startup None (\<lambda>n. []))
       \<lparr>form_username = ''nobody'', form_password = ''fakehashedpassword''\<rparr>)
     = Inl (HTTPException 401 ''Incorrect username or password'' [(''WWW-Authenticate'', ''Bearer'')])"
proof -
  have keys: "\<forall>k u. map_of (users_db (startup None (\<lambda>n. []))) k = Some u \<longrightarrow> username u = k"
    by (auto simp: startup_def seed_users_def split: if_splits)
  have users: "users_db (startup None (\<lambda>n. [])) = seed_users"
    by (simp add: startup_def)
  show ?thesis
    using login_contract [OF keys, where f = "\<lparr>form_username = ''testuser'', form_password = ''fakehashedpassword''\<rparr>"]
      login_contract [OF keys, where f = "\<lparr>form_username = ''testuser'', form_password = ''guess''\<rparr>"]
      login_contract [OF keys, where f = "\<lparr>form_username = ''nobody'', form_password = ''fakehashedpassword''\<rparr>"]
    by (simp add: users seed_users_def)
qed

subsection \<open>Trend lookup\<close>

lemma get_career_trends'_career_missing:
  assumes "combined_mock_data w = JObj doc"
    and "map_of doc c = None \<or> (\<exists>v. map_of doc c = Some v \<and> \<not> truthy v)"
  shows "get_career_trends' w c m = (Inl (HTTPException 404 ''Career not found'' []), w)"
  using assms by (auto simp: get_career_trends'_def)

lemma get_career_trends'_metric:
  assumes "combined_mock_data w = JObj doc"
    and "map_of doc c = Some (JObj cd)" and "cd \<noteq> []"
    and "map_of cd ''trends'' = None \<and> t = [] \<or> map_of cd ''trends'' = Some (JObj t)"
  shows "get_career_trends' w c m =
     (case map_of t m of
        None \<Rightarrow> (Inl (HTTPException 404 (''Metric '' @ m @ '' not found for this career'') []), w)
      | Some v \<Rightarrow>
          if truthy v
          then (Inr (TrendDataResponse v (''This is a mock insight for '' @ c @ '' '' @ m
                  @ '' trends. Gemini integration will fill missing data and provide real insights here later.'')), w)
          else (Inl (HTTPException 404 (''Metric '' @ m @ '' not found for this career'') []), w))"
  using assms by (auto simp: get_career_trends'_def split: option.splits)

text \<open>
  C3, as the specification words it, promises the stored data whenever the career key and
  the metric key are both present.  Here both are present, the metric is stored as the
  empty list, and the answer is the metric-not-found 404.
\<close>

theorem api_trends_presence_counterexample:
  "map_of [(''nurse'', JObj [(''trends'', JObj [(''salary'', JList [])])])] ''nurse''
     = Some (JObj [(''trends'', JObj [(''salary'', JList [])])])
   \<and> map_of [(''trends'', JObj [(''salary'', JList [])])] ''trends''
     = Some (JObj [(''salary'', JList [])])
   \<and> map_of [(''salary'', JList [])] ''salary'' = Some (JList [])
   \<and> fst (get_career_trends'
        (startup (Some (JObj [(''nurse'', JObj [(''trends'', JObj [(''salary'', JList [])])])]))
           (\<lambda>n. []))
        ''nurse'' ''salary'')
     = Inl (HTTPException 404 ''Metric salary not found for this career'' [])"
  by (simp add: get_career_trends'_def startup_def)

text \<open>
  C3, amended.  On a document that is a mapping: a career key that is absent or maps to a
  falsy value gets the 404 \<open>Career not found\<close>; for a career stored as a non-empty
  mapping whose \<open>trends\<close> entry is absent or a mapping, a metric key that is absent
  from it or maps to a falsy value gets the 404 \<open>Metric \<dots> not found for this career\<close>,
  and a metric key that maps to a truthy value gets that stored value with the insight
  string built from the career and the metric.
\<close>

theorem api_trends_lookup:
  assumes "combined_mock_data w = JObj doc"
  shows
    "((map_of doc c = None \<or> (\<exists>v. map_of doc c = Some v \<and> \<not> truthy v)) \<longrightarrow>
        get_career_trends' w c m = (Inl (HTTPException 404 ''Career not found'' []), w))
   \<and> (map_of doc c = Some (JObj cd) \<and> cd \<noteq> []
        \<and> (map_of cd ''trends'' = None \<and> t = [] \<or> map_of cd ''trends'' = Some (JObj t))
        \<and> (map_of t m = None \<or> (\<exists>v. map_of t m = Some v \<and> \<not> truthy v)) \<longrightarrow>
        get_career_trends' w c m =
          (Inl (HTTPException 404 (''Metric '' @ m @ '' not found for this career'') []), w))
   \<and> (map_of doc c = Some (JObj cd) \<and> cd \<noteq> []
        \<and> (map_of cd ''trends'' = None \<and> t = [] \<or> map_of cd ''trends'' = Some (JObj t))
        \<and> map_of t m = Some d \<and> truthy d \<longrightarrow>
        get_career_trends' w c m =
          (Inr (TrendDataResponse d (''This is a mock insight for '' @ c @ '' '' @ m
             @ '' trends. Gemini integration will fill missing data and provide real insights here later.'')), w))"
proof (intro conjI impI)
  assume "map_of doc c = None \<or> (\<exists>v. map_of doc c = Some v \<and> \<not> truthy v)"
  with assms show "get_career_trends' w c m = (Inl (HTTPException 404 ''Career not found'' []), w)"
    by (rule get_career_trends'_career_missing)
next
  assume a: "map_of doc c = Some (JObj cd) \<and> cd \<noteq> []
        \<and> (map_of cd ''trends'' = None \<and> t = [] \<or> map_of cd ''trends'' = Some (JObj t))
        \<and> (map_of t m = None \<or> (\<exists>v. map_of t m = Some v \<and> \<not> truthy v))"
  then have "map_of doc c = Some (JObj cd)" "cd \<noteq> []"
    "map_of cd ''trends'' = None \<and> t = [] \<or> map_of cd ''trends'' = Some (JObj t)"
    by simp_all
  from get_career_trends'_metric [OF assms this] a
  show "get_career_trends' w c m =
          (Inl (HTTPException 404 (''Metric '' @ m @ '' not found for this career'') []), w)"
    by (auto split: option.splits)
next
  assume a: "map_of doc c = Some (JObj cd) \<and> cd \<noteq> []
        \<and> (map_of cd ''trends'' = None \<and> t = [] \<or> map_of cd ''trends'' = Some (JObj t))
        \<and> map_of t m = Some d \<and> truthy d"
  then have "map_of doc c = Some (JObj cd)" "cd \<noteq> []"
    "map_of cd ''trends'' = None \<and> t = [] \<or> map_of cd ''trends'' = Some (JObj t)"
    by simp_all
  from get_career_trends'_metric [OF assms this] a
  show "get_career_trends' w c m =
          (Inr (TrendDataResponse d (''This is a mock insight for '' @ c @ '' '' @ m
             @ '' trends. Gemini integration will fill missing data and provide real insights here later.'')), w)"
    by simp
qed

theorem api_trends_lookup_witness:
  "get_career_trends' (startup (Some trends_doc) (\<lambda>n. [])) ''pilot'' ''salary''
     = (Inl (HTTPException 404 ''Career not found'' []), startup (Some trends_doc) (\<lambda>n. []))
   \<and> get_career_trends' (startup (Some trends_doc) (\<lambda>n. [])) ''nurse'' ''hours''
     = (Inl (HTTPException 404 ''Metric hours not found for this career'' []),
        startup (Some trends_doc) (\<lambda>n. []))
   \<and> get_career_trends' (startup (Some trends_doc) (\<lambda>n. [])) ''nurse'' ''salary''
     = (Inr (TrendDataResponse (JList [JInt 52000, JInt 61000])
          ''This is a mock insight for nurse salary trends. Gemini integration will fill missing data and provide real insights here later.''),
        startup (Some trends_doc) (\<lambda>n. []))"
proof -
  have doc: "combined_mock_data (startup (Some trends_doc) (\<lambda>n. []))
      = JObj [(''nurse'', JObj [(''trends'', JObj [(''salary'', JList [JInt 52000, JInt 61000]),
                                                (''demand'', JList [])])]),
           (''ghost'', JObj [])]"
    by (simp add: startup_def trends_doc_def)
  show ?thesis
    using api_trends_lookup [OF doc, where c = "''pilot''" and m = "''salary''"]
      api_trends_lookup [OF doc, where c = "''nurse''" and m = "''hours''"
         and cd = "[(''trends'', JObj [(''salary'', JList [JInt 52000, JInt 61000]),
                                       (''demand'', JList [])])]"
         and t = "[(''salary'', JList [JInt 52000, JInt 61000]), (''demand'', JList [])]"]
      api_trends_lookup [OF doc, where c = "''nurse''" and m = "''salary''"
         and cd = "[(''trends'', JObj [(''salary'', JList [JInt 52000, JInt 61000]),
                                       (''demand'', JList [])])]"
         and t = "[(''salary'', JList [JInt 52000, JInt 61000]), (''demand'', JList [])]"
         and d = "JList [JInt 52000, JInt 61000]"]
    by simp
qed

text \<open>
  C9.  The handler of \<^verbatim>\<open>GET /api/trends\<close> tests truth values, not key presence: a
  career key that is present with a falsy value gets the career-not-found 404, and a
  metric key that is present in the \<open>trends\<close> mapping with a falsy value gets the
  metric-not-found 404.
\<close>

theorem api_trends_truthiness:
  assumes "combined_mock_data w = JObj doc"
  shows
    "(map_of doc c = Some v \<and> \<not> truthy v \<longrightarrow>
        get_career_trends' w c m = (Inl (HTTPException 404 ''Career not found'' []), w))
   \<and> (map_of doc c = Some (JObj cd) \<and> truthy (JObj cd)
        \<and> map_of cd ''trends'' = Some (JObj t)
        \<and> map_of t m = Some d \<and> \<not> truthy d \<longrightarrow>
        get_career_trends' w c m =
          (Inl (HTTPException 404 (''Metric '' @ m @ '' not found for this career'') []), w))"
  using assms by (auto simp: get_career_trends'_def)

theorem api_trends_truthiness_witness:
  "map_of [(''nurse'', JObj [(''trends'', JObj [(''salary'', JList [JInt 52000, JInt 61000]),
                                                (''demand'', JList [])])]),
           (''ghost'', JObj [])] ''ghost'' = Some (JObj [])
   \<and> get_career_trends' (startup (Some trends_doc) (\<lambda>n. [])) ''ghost'' ''salary''
     = (Inl (HTTPException 404 ''Career not found'' []), startup (Some trends_doc) (\<lambda>n. []))
   \<and> map_of [(''salary'', JList [JInt 52000, JInt 61000]), (''demand'', JList [])] ''demand''
       = Some (JList [])
   \<and> get_career_trends' (startup (Some trends_doc) (\<lambda>n. [])) ''nurse'' ''demand''
     = (Inl (HTTPException 404 ''Metric demand not found for this career'' []),
        startup (Some trends_doc) (\<lambda>n. []))"
proof -
  have doc: "combined_mock_data (startup (Some trends_doc) (\<lambda>n. []))
      = JObj [(''nurse'', JObj [(''trends'', JObj [(''salary'', JList [JInt 52000, JInt 61000]),
                                                (''demand'', JList [])])]),
           (''ghost'', JObj [])]"
    by (simp add: startup_def trends_doc_def)
  show ?thesis
    using api_trends_truthiness [OF doc, where c = "''ghost''" and v = "JObj []" and m = "''salary''"]
      api_trends_truthiness [OF doc, where c = "''nurse''" and m = "''demand''"
        and cd = "[(''trends'', JObj [(''salary'', JList [JInt 52000, JInt 61000]),
                                      (''demand'', JList [])])]"
        and t = "[(''salary'', JList [JInt 52000, JInt 61000]), (''demand'', JList [])]"
        and d = "JList []"]
    by simp
qed

subsection \<open>Persona timeline\<close>

lemma make_event_copy:
  assumes sf: "\<forall>s. sf (JStr s) = Some s" and tf: "template_fields tmpl ev"
  shows "make_event sf tmpl = Inr ev"
proof -
  from tf obtain kvs where t: "tmpl = JObj kvs"
    by (cases tmpl) (simp_all add: template_fields_def)
  from tf t have req:
    "map_of kvs ''time'' = Some (JStr (time ev))"
    "map_of kvs ''title'' = Some (JStr (title ev))"
    "map_of kvs ''description'' = Some (JStr (description ev))"
    "map_of kvs ''visual_prompt'' = Some (JStr (visual_prompt ev))"
    "map_of kvs ''media_type'' = Some (JStr (media_type ev))"
    by (simp_all add: template_fields_def)
  from tf t have url:
    "(case map_of kvs ''media_url'' of None \<Rightarrow> JStr [] | Some v \<Rightarrow> v) = JStr (media_url ev)"
    by (simp add: template_fields_def split: option.splits)
  show ?thesis
    unfolding make_event_def t
    by (simp add: req url Event_init_def sf)
qed

lemma build_timeline_copy:
  assumes sf: "\<forall>s. sf (JStr s) = Some s"
  shows "list_all2 template_fields ts evs \<Longrightarrow> build_timeline sf ts acc = Inr (acc @ evs)"
proof (induction ts arbitrary: evs acc)
  case Nil
  then show ?case by simp
next
  case (Cons t ts)
  from Cons.prems obtain ev evs' where evs: "evs = ev # evs'"
    and hd: "template_fields t ev" and tl: "list_all2 template_fields ts evs'"
    by (auto simp: list_all2_Cons1)
  from make_event_copy [OF sf hd] Cons.IH [OF tl] evs show ?case
    by simp
qed

lemma simulate_career_not_found:
  assumes "combined_mock_data w = JObj doc"
    and "map_of doc pid = None \<or> (\<exists>v. map_of doc pid = Some v \<and> \<not> truthy v)"
  shows "simulate_career sf w pid sp = (Inl (HTTPException 404 ''Persona not found'' []), w)"
  using assms by (auto simp: simulate_career_def)

text \<open>
  C4, as the specification words it, promises a timeline whenever the person key is
  present.  Here the key is present and maps to the empty dict, and the answer is the 404.
\<close>

theorem simulate_key_present_counterexample:
  "map_of [(''ghost'', JObj [])] ''ghost'' = Some (JObj [])
   \<and> simulate_career strict_str (startup (Some (JObj [(''ghost'', JObj [])])) (\<lambda>n. []))
        ''ghost'' None
     = (Inl (HTTPException 404 ''Persona not found'' []),
        startup (Some (JObj [(''ghost'', JObj [])])) (\<lambda>n. []))"
  by (simp add: simulate_career_def startup_def)

text \<open>
  C4, amended.  On a document that is a mapping: a person key that is absent or maps to a
  falsy value gets the 404 \<open>Persona not found\<close>.  For a persona stored as a non-empty
  mapping whose \<open>events_template\<close> is a list of templates, each a mapping with
  string-valued \<open>time\<close>, \<open>title\<close>, \<open>description\<close>, \<open>visual_prompt\<close> and
  \<open>media_type\<close> (and a string \<open>media_url\<close> if it has one), the answer is a
  \<open>TimelineResponse\<close> with the identifier just drawn from the generator, the given
  \<open>person_id\<close>, and exactly one event per template, in order, each holding the template's
  five fields and its \<open>media_url\<close>, or the empty string when the template has none.
\<close>

theorem simulate_timeline:
  assumes doc: "combined_mock_data w = JObj doc"
    and sf: "\<forall>s. sf (JStr s) = Some s"
  shows
    "((map_of doc pid = None \<or> (\<exists>v. map_of doc pid = Some v \<and> \<not> truthy v)) \<longrightarrow>
        simulate_career sf w pid sp = (Inl (HTTPException 404 ''Persona not found'' []), w))
   \<and> (map_of doc pid = Some (JObj persona) \<and> persona \<noteq> []
        \<and> map_of persona ''events_template'' = Some (JList ts)
        \<and> list_all2 template_fields ts evs \<longrightarrow>
        simulate_career sf w pid sp =
          (Inr (Timeline \<lparr>session_id = entropy w (draws w), person_id = pid, timeline = evs\<rparr>),
           w\<lparr>draws := Suc (draws w)\<rparr>)
        \<and> length evs = length ts)"
proof (intro conjI impI)
  assume "map_of doc pid = None \<or> (\<exists>v. map_of doc pid = Some v \<and> \<not> truthy v)"
  with doc show "simulate_career sf w pid sp = (Inl (HTTPException 404 ''Persona not found'' []), w)"
    by (rule simulate_career_not_found)
next
  assume a: "map_of doc pid = Some (JObj persona) \<and> persona \<noteq> []
        \<and> map_of persona ''events_template'' = Some (JList ts)
        \<and> list_all2 template_fields ts evs"
  then have "build_timeline sf ts [] = Inr evs"
    using build_timeline_copy [OF sf, of ts evs "[]"] by simp
  with doc a show "simulate_career sf w pid sp =
          (Inr (Timeline \<lparr>session_id = entropy w (draws w), person_id = pid, timeline = evs\<rparr>),
           w\<lparr>draws := Suc (draws w)\<rparr>)"
    by (simp add: simulate_career_def uuid4_def)
next
  assume "map_of doc pid = Some (JObj persona) \<and> persona \<noteq> []
        \<and> map_of persona ''events_template'' = Some (JList ts)
        \<and> list_all2 template_fields ts evs"
  then have "list_all2 template_fields ts evs"
    by simp
  then show "length evs = length ts"
    by (simp add: list_all2_lengthD)
qed

theorem simulate_timeline_witness:
  "simulate_career strict_str (startup (Some persona_doc) example_uuids)
       ''zed'' None
     = (Inl (HTTPException 404 ''Persona not found'' []),
        startup (Some persona_doc) example_uuids)
   \<and> fst (simulate_career strict_str
        (startup (Some persona_doc) example_uuids) ''ada'' None)
     = Inr (Timeline
         \<lparr>session_id = ''u'', person_id = ''ada'',
          timeline =
            [\<lparr>time = ''09:00'', title = ''Standup'', description = ''Daily sync'',
              visual_prompt = ''a team at a board'', media_type = ''image'', media_url = ''''\<rparr>,
             \<lparr>time = ''14:00'', title = ''Review'', description = ''Code review'',
              visual_prompt = ''two screens'', media_type = ''video'',
              media_url = ''https://example.com/review.mp4''\<rparr>]\<rparr>)"
proof -
  have doc: "combined_mock_data (startup (Some persona_doc) example_uuids)
      = JObj [(''ada'', JObj
              [(''events_template'', JList
                  [JObj [(''time'', JStr ''09:00''), (''title'', JStr ''Standup''),
                         (''description'', JStr ''Daily sync''),
                         (''visual_prompt'', JStr ''a team at a board''),
                         (''media_type'', JStr ''image'')],
                   JObj [(''time'', JStr ''14:00''), (''title'', JStr ''Review''),
                         (''description'', JStr ''Code review''),
                         (''visual_prompt'', JStr ''two screens''),
                         (''media_type'', JStr ''video''),
                         (''media_url'', JStr ''https://example.com/review.mp4'')]])]),
           (''bob'', JObj [(''trends'', JObj [])])]"
    by (simp add: startup_def persona_doc_def)
  have sf: "\<forall>s. strict_str (JStr s) = Some s"
    by simp
  have w0: "entropy (startup (Some persona_doc) example_uuids)
        (draws (startup (Some persona_doc) example_uuids)) = ''u''"
    by (simp add: startup_def example_uuids_def)
  show ?thesis
    using simulate_timeline [OF doc sf, where pid = "''zed''" and sp = None]
      simulate_timeline [OF doc sf, where pid = "''ada''" and sp = None
        and persona = "[(''events_template'', JList
                  [JObj [(''time'', JStr ''09:00''), (''title'', JStr ''Standup''),
                         (''description'', JStr ''Daily sync''),
                         (''visual_prompt'', JStr ''a team at a board''),
                         (''media_type'', JStr ''image'')],
                   JObj [(''time'', JStr ''14:00''), (''title'', JStr ''Review''),
                         (''description'', JStr ''Code review''),
                         (''visual_prompt'', JStr ''two screens''),
                         (''media_type'', JStr ''video''),
                         (''media_url'', JStr ''https://example.com/review.mp4'')]])]"
        and ts = "[JObj [(''time'', JStr ''09:00''), (''title'', JStr ''Standup''),
                         (''description'', JStr ''Daily sync''),
                         (''visual_prompt'', JStr ''a team at a board''),
                         (''media_type'', JStr ''image'')],
                   JObj [(''time'', JStr ''14:00''), (''title'', JStr ''Review''),
                         (''description'', JStr ''Code review''),
                         (''visual_prompt'', JStr ''two screens''),
                         (''media_type'', JStr ''video''),
                         (''media_url'', JStr ''https://example.com/review.mp4'')]]"
        and evs = "[\<lparr>time = ''09:00'', title = ''Standup'', description = ''Daily sync'',
              visual_prompt = ''a team at a board'', media_type = ''image'', media_url = ''''\<rparr>,
             \<lparr>time = ''14:00'', title = ''Review'', description = ''Code review'',
              visual_prompt = ''two screens'', media_type = ''video'',
              media_url = ''https://example.com/review.mp4''\<rparr>]"]
    by (simp add: w0 template_fields_def)
qed

text \<open>
  C10.  When the person key maps to a truthy persona record without an
  \<open>events_template\<close> key, the handler raises nothing: it answers with the given
  \<open>person_id\<close>, the identifier just drawn from the generator, and an empty timeline.
\<close>

theorem simulate_without_templates:
  assumes "combined_mock_data w = JObj doc"
    and "map_of doc pid = Some (JObj persona)"
    and "truthy (JObj persona)"
    and "map_of persona ''events_template'' = None"
  shows "simulate_career sf w pid sp =
     (Inr (Timeline \<lparr>session_id = entropy w (draws w), person_id = pid, timeline = []\<rparr>),
      w\<lparr>draws := Suc (draws w)\<rparr>)"
  using assms by (simp add: simulate_career_def uuid4_def)

theorem simulate_without_templates_witness:
  "fst (simulate_career strict_str
        (startup (Some persona_doc) example_uuids) ''bob'' None)
     = Inr (Timeline \<lparr>session_id = ''u'', person_id = ''bob'', timeline = []\<rparr>)"
proof -
  have doc: "combined_mock_data (startup (Some persona_doc) example_uuids)
      = JObj [(''ada'', JObj
              [(''events_template'', JList
                  [JObj [(''time'', JStr ''09:00''), (''title'', JStr ''Standup''),
                         (''description'', JStr ''Daily sync''),
                         (''visual_prompt'', JStr ''a team at a board''),
                         (''media_type'', JStr ''image'')],
                   JObj [(''time'', JStr ''14:00''), (''title'', JStr ''Review''),
                         (''description'', JStr ''Code review''),
                         (''visual_prompt'', JStr ''two screens''),
                         (''media_type'', JStr ''video''),
                         (''media_url'', JStr ''https://example.com/review.mp4'')]])]),
           (''bob'', JObj [(''trends'', JObj [])])]"
    by (simp add: startup_def persona_doc_def)
  have bob: "map_of [(''ada'', JObj
              [(''events_template'', JList
                  [JObj [(''time'', JStr ''09:00''), (''title'', JStr ''Standup''),
                         (''description'', JStr ''Daily sync''),
                         (''visual_prompt'', JStr ''a team at a board''),
                         (''media_type'', JStr ''image'')],
                   JObj [(''time'', JStr ''14:00''), (''title'', JStr ''Review''),
                         (''description'', JStr ''Code review''),
                         (''visual_prompt'', JStr ''two screens''),
                         (''media_type'', JStr ''video''),
                         (''media_url'', JStr ''https://example.com/review.mp4'')]])]),
           (''bob'', JObj [(''trends'', JObj [])])] ''bob'' = Some (JObj [(''trends'', JObj [])])"
    by simp
  have tr: "truthy (JObj [(''trends'', JObj [])])"
    by simp
  have no: "map_of [(''trends'', JObj [])] ''events_template'' = None"
    by simp
  show ?thesis
    using simulate_without_templates [OF doc bob tr no, of strict_str None]
    by (simp add: startup_def example_uuids_def)
qed

subsection \<open>Protected endpoints\<close>

lemma route_lookup_protected:
  "route_lookup routes POST ''/quiz/submit'' = Some E_submit_quiz"
  "route_lookup routes GET ''/careers/recommend'' = Some E_get_career_recommendations"
  "route_lookup routes GET ''/careers/trends'' = Some E_get_career_trends"
  "route_lookup routes POST ''/simulation/generate'' = Some E_generate_simulation"
  by (simp_all add: routes_def)

lemma current_user_dependency_refuses:
  assumes "\<forall>t. tok = Some t \<longrightarrow> t \<notin> fst ` set (users_db w)"
  shows "\<exists>detail. current_user_dependency w tok
           = Inl (HTTPException 401 detail [(''WWW-Authenticate'', ''Bearer'')])"
proof (cases tok)
  case None
  then show ?thesis
    by (simp add: current_user_dependency_def oauth2_scheme_def)
next
  case (Some t)
  with assms have "map_of (users_db w) t = None"
    by (simp add: map_of_eq_None_iff)
  with Some show ?thesis
    by (simp add: current_user_dependency_def oauth2_scheme_def get_current_user_def get_user_def)
qed

text \<open>
  C5.  A request to \<^verbatim>\<open>POST /quiz/submit\<close>, \<^verbatim>\<open>GET /careers/recommend\<close>,
  \<^verbatim>\<open>GET /careers/trends\<close> or \<^verbatim>\<open>POST /simulation/generate\<close> that carries no bearer
  token, or one that is not a key of the user table, is answered with a 401, and the
  handler is not reached: the answer is the same whatever function stands in its place.
\<close>

theorem protected_endpoints_unauthorized:
  assumes route: "(req_method r, req_path r) \<in>
      {(POST, ''/quiz/submit''), (GET, ''/careers/recommend''), (GET, ''/careers/trends''),
       (POST, ''/simulation/generate'')}"
    and tok: "\<forall>t. req_token r = Some t \<longrightarrow> t \<notin> fst ` set (users_db w)"
  shows "\<exists>detail.
      serve sf w r = (Inl (HTTPException 401 detail [(''WWW-Authenticate'', ''Bearer'')]), w)
      \<and> (\<forall>body. depends w (current_user_dependency w (req_token r)) body
            = (Inl (HTTPException 401 detail [(''WWW-Authenticate'', ''Bearer'')]), w))"
proof -
  from current_user_dependency_refuses [OF tok] obtain detail where
    dep: "current_user_dependency w (req_token r)
           = Inl (HTTPException 401 detail [(''WWW-Authenticate'', ''Bearer'')])"
    by blast
  have body: "depends w (current_user_dependency w (req_token r)) b
      = (Inl (HTTPException 401 detail [(''WWW-Authenticate'', ''Bearer'')]), w)" for b
    by (simp add: depends_def dep)
  from route consider
      "req_method r = POST" "req_path r = ''/quiz/submit''"
    | "req_method r = GET" "req_path r = ''/careers/recommend''"
    | "req_method r = GET" "req_path r = ''/careers/trends''"
    | "req_method r = POST" "req_path r = ''/simulation/generate''"
    by auto
  then have "serve sf w r = (Inl (HTTPException 401 detail [(''WWW-Authenticate'', ''Bearer'')]), w)"
  proof cases
    case 1
    then show ?thesis by (simp add: serve_def route_lookup_protected body)
  next
    case 2
    then show ?thesis by (simp add: serve_def route_lookup_protected body)
  next
    case 3
    then show ?thesis by (simp add: serve_def route_lookup_protected body)
  next
    case 4
    then show ?thesis by (simp add: serve_def route_lookup_protected body)
  qed
  with body show ?thesis
    by blast
qed

theorem protected_endpoints_unauthorized_witness:
  "serve strict_str (startup None example_uuids)
      \<lparr>req_method = POST, req_path = ''/quiz/submit'', req_token = Some ''mallory'',
       req_input = QuizInput \<lparr>answers = []\<rparr>\<rparr>
     = (Inl (HTTPException 401 ''Invalid authentication credentials''
              [(''WWW-Authenticate'', ''Bearer'')]), startup None example_uuids)
   \<and> serve strict_str (startup None example_uuids)
      \<lparr>req_method = GET, req_path = ''/careers/trends'', req_token = None,
       req_input = NoInput\<rparr>
     = (Inl (HTTPException 401 ''Not authenticated''
              [(''WWW-Authenticate'', ''Bearer'')]), startup None example_uuids)"
proof -
  have users: "users_db (startup None example_uuids) = seed_users"
    by (simp add: startup_def)
  have dep1: "current_user_dependency (startup None example_uuids) (Some ''mallory'')
      = Inl (HTTPException 401 ''Invalid authentication credentials''
              [(''WWW-Authenticate'', ''Bearer'')])"
    by (simp add: current_user_dependency_def oauth2_scheme_def get_current_user_def get_user_def
        users seed_users_def)
  have dep2: "current_user_dependency (startup None example_uuids) None
      = Inl (HTTPException 401 ''Not authenticated'' [(''WWW-Authenticate'', ''Bearer'')])"
    by (simp add: current_user_dependency_def oauth2_scheme_def)
  show ?thesis
    using protected_endpoints_unauthorized [where sf = strict_str
        and w = "startup None example_uuids"
        and r = "\<lparr>req_method = POST, req_path = ''/quiz/submit'', req_token = Some ''mallory'',
                  req_input = QuizInput \<lparr>answers = []\<rparr>\<rparr>"]
      protected_endpoints_unauthorized [where sf = strict_str
        and w = "startup None example_uuids"
        and r = "\<lparr>req_method = GET, req_path = ''/careers/trends'', req_token = None,
                  req_input = NoInput\<rparr>"]
    by (auto simp: users seed_users_def depends_def dep1 dep2)
qed

subsection \<open>The root route\<close>

text \<open>
  C6, as the specification words it, has the later of the two handlers registered for
  \<^verbatim>\<open>GET /\<close> answer.  The route list is searched from the front, so the earlier one does.
\<close>

theorem root_second_definition_counterexample:
  "fst (serve strict_str (startup None example_uuids)
          \<lparr>req_method = GET, req_path = ''/'', req_token = None, req_input = NoInput\<rparr>)
     = Inr (MessageResponse ''Welcome to Career Compass API'')
   \<and> fst (serve strict_str (startup None example_uuids)
          \<lparr>req_method = GET, req_path = ''/'', req_token = None, req_input = NoInput\<rparr>)
     \<noteq> Inr (MessageResponse ''Welcome to the Career Trends API'')"
  by (simp add: serve_def routes_def read_root_def)

text \<open>
  C6, amended.  \<^verbatim>\<open>GET /\<close> is registered twice and the first registration wins: every
  such request is answered with \<open>Welcome to Career Compass API\<close>, and no method and path
  reach the second handler.
\<close>

theorem root_first_definition:
  "(req_method r = GET \<and> req_path r = ''/'' \<longrightarrow>
      serve sf w r = (Inr (MessageResponse ''Welcome to Career Compass API''), w))
   \<and> route_lookup routes m p \<noteq> Some E_read_root'"
proof
  show "req_method r = GET \<and> req_path r = ''/'' \<longrightarrow>
      serve sf w r = (Inr (MessageResponse ''Welcome to Career Compass API''), w)"
    by (simp add: serve_def routes_def read_root_def)
next
  show "route_lookup routes m p \<noteq> Some E_read_root'"
    by (auto simp: routes_def)
qed

theorem root_first_definition_witness:
  "serve strict_str (startup None example_uuids)
      \<lparr>req_method = GET, req_path = ''/'', req_token = Some ''testuser'', req_input = NoInput\<rparr>
     = (Inr (MessageResponse ''Welcome to Career Compass API''), startup None example_uuids)"
  using root_first_definition [where sf = strict_str and w = "startup None example_uuids"
      and r = "\<lparr>req_method = GET, req_path = ''/'', req_token = Some ''testuser'',
                req_input = NoInput\<rparr>"]
  by simp

subsection \<open>Static providers\<close>

lemma current_user_dependency_accepts:
  "get_user w t = Some u \<Longrightarrow> current_user_dependency w (Some t) = Inr u"
  by (simp add: current_user_dependency_def oauth2_scheme_def get_current_user_def)


text \<open>
  C7.  Two authenticated calls of the same static provider, with any tokens, arguments
  and process states, return the same recommendations, the same trend list and the same
  scenario; the responses differ at most in the user name attached to them.
\<close>

theorem static_providers_ignore_input:
  assumes u1: "get_user w1 t1 = Some u1" and u2: "get_user w2 t2 = Some u2"
  shows
    "(\<exists>recs.
        fst (serve sf w1 \<lparr>req_method = GET, req_path = ''/careers/recommend'',
               req_token = Some t1, req_input = ProfileInput p1\<rparr>)
          = Inr (RecommendResponse recs (username u1))
      \<and> fst (serve sf w2 \<lparr>req_method = GET, req_path = ''/careers/recommend'',
               req_token = Some t2, req_input = ProfileInput p2\<rparr>)
          = Inr (RecommendResponse recs (username u2)))
   \<and> (\<exists>trends.
        fst (serve sf w1 \<lparr>req_method = GET, req_path = ''/careers/trends'',
               req_token = Some t1, req_input = i1\<rparr>)
          = Inr (TrendsResponse trends)
      \<and> fst (serve sf w2 \<lparr>req_method = GET, req_path = ''/careers/trends'',
               req_token = Some t2, req_input = i2\<rparr>)
          = Inr (TrendsResponse trends))
   \<and> (\<exists>scenario.
        fst (serve sf w1 \<lparr>req_method = POST, req_path = ''/simulation/generate'',
               req_token = Some t1, req_input = i1\<rparr>)
          = Inr (SimulationResponse scenario (username u1))
      \<and> fst (serve sf w2 \<lparr>req_method = POST, req_path = ''/simulation/generate'',
               req_token = Some t2, req_input = i2\<rparr>)
          = Inr (SimulationResponse scenario (username u2)))"
proof -
  note deps = current_user_dependency_accepts [OF u1] current_user_dependency_accepts [OF u2]
  have rec: "\<exists>recs.
        fst (serve sf w1 \<lparr>req_method = GET, req_path = ''/careers/recommend'',
               req_token = Some t1, req_input = ProfileInput p1\<rparr>)
          = Inr (RecommendResponse recs (username u1))
      \<and> fst (serve sf w2 \<lparr>req_method = GET, req_path = ''/careers/recommend'',
               req_token = Some t2, req_input = ProfileInput p2\<rparr>)
          = Inr (RecommendResponse recs (username u2))"
    by (simp add: serve_def routes_def depends_def deps get_career_recommendations_def)
  have tr: "\<exists>trends.
        fst (serve sf w1 \<lparr>req_method = GET, req_path = ''/careers/trends'',
               req_token = Some t1, req_input = i1\<rparr>)
          = Inr (TrendsResponse trends)
      \<and> fst (serve sf w2 \<lparr>req_method = GET, req_path = ''/careers/trends'',
               req_token = Some t2, req_input = i2\<rparr>)
          = Inr (TrendsResponse trends)"
    by (simp add: serve_def routes_def depends_def deps get_career_trends_def)
  have sim: "\<exists>scenario.
        fst (serve sf w1 \<lparr>req_method = POST, req_path = ''/simulation/generate'',
               req_token = Some t1, req_input = i1\<rparr>)
          = Inr (SimulationResponse scenario (username u1))
      \<and> fst (serve sf w2 \<lparr>req_method = POST, req_path = ''/simulation/generate'',
               req_token = Some t2, req_input = i2\<rparr>)
          = Inr (SimulationResponse scenario (username u2))"
    by (simp add: serve_def routes_def depends_def deps generate_simulation_def)
  from rec tr sim show ?thesis
    by (intro conjI)
qed

theorem static_providers_ignore_input_witness:
  "fst (serve strict_str (startup None example_uuids)
          \<lparr>req_method = GET, req_path = ''/careers/recommend'', req_token = Some ''testuser'',
           req_input = ProfileInput (classify_personality \<lparr>answers = []\<rparr>)\<rparr>)
     = fst (get_career_recommendations (startup None example_uuids)
              (classify_personality \<lparr>answers = []\<rparr>)
              \<lparr>username = ''testuser'', email = Some ''test@example.com'',
               disabled = Some False, hashed_password = ''fakehashedpassword''\<rparr>)
   \<and> (\<exists>recs.
        fst (serve strict_str (startup None example_uuids)
          \<lparr>req_method = GET, req_path = ''/careers/recommend'', req_token = Some ''testuser'',
           req_input = ProfileInput (classify_personality \<lparr>answers = []\<rparr>)\<rparr>)
          = Inr (RecommendResponse recs ''testuser'')
      \<and> fst (serve strict_str
            ((startup (Some persona_doc) example_uuids)\<lparr>users_db := second_users\<rparr>)
          \<lparr>req_method = GET, req_path = ''/careers/recommend'', req_token = Some ''alice'',
           req_input = ProfileInput \<lparr>MBTI = ''XXXX'', OCEAN = [], interests = []\<rparr>\<rparr>)
          = Inr (RecommendResponse recs ''alice''))"
proof -
  have u1: "get_user (startup None example_uuids) ''testuser''
      = Some \<lparr>username = ''testuser'', email = Some ''test@example.com'',
               disabled = Some False, hashed_password = ''fakehashedpassword''\<rparr>"
    by (simp add: get_user_def startup_def seed_users_def)
  have u2: "get_user ((startup (Some persona_doc) example_uuids)\<lparr>users_db := second_users\<rparr>) ''alice''
      = Some \<lparr>username = ''alice'', email = None, disabled = None, hashed_password = ''pw''\<rparr>"
    by (simp add: get_user_def second_users_def)
  have a: "fst (serve strict_str (startup None example_uuids)
          \<lparr>req_method = GET, req_path = ''/careers/recommend'', req_token = Some ''testuser'',
           req_input = ProfileInput (classify_personality \<lparr>answers = []\<rparr>)\<rparr>)
     = fst (get_career_recommendations (startup None example_uuids)
              (classify_personality \<lparr>answers = []\<rparr>)
              \<lparr>username = ''testuser'', email = Some ''test@example.com'',
               disabled = Some False, hashed_password = ''fakehashedpassword''\<rparr>)"
    by (simp add: serve_def routes_def depends_def current_user_dependency_accepts [OF u1])
  from static_providers_ignore_input [OF u1 u2, where sf = strict_str
      and ?p1.0 = "classify_personality \<lparr>answers = []\<rparr>"
      and ?p2.0 = "\<lparr>MBTI = ''XXXX'', OCEAN = [], interests = []\<rparr>"]
  have b: "\<exists>recs.
        fst (serve strict_str (startup None example_uuids)
          \<lparr>req_method = GET, req_path = ''/careers/recommend'', req_token = Some ''testuser'',
           req_input = ProfileInput (classify_personality \<lparr>answers = []\<rparr>)\<rparr>)
          = Inr (RecommendResponse recs ''testuser'')
      \<and> fst (serve strict_str
            ((startup (Some persona_doc) example_uuids)\<lparr>users_db := second_users\<rparr>)
          \<lparr>req_method = GET, req_path = ''/careers/recommend'', req_token = Some ''alice'',
           req_input = ProfileInput \<lparr>MBTI = ''XXXX'', OCEAN = [], interests = []\<rparr>\<rparr>)
          = Inr (RecommendResponse recs ''alice'')"
    by simp
  from a b show ?thesis
    by (rule conjI)
qed

subsection \<open>Read-only state\<close>

lemma simulate_career_frame:
  "users_db (snd (simulate_career sf w pid sp)) = users_db w
   \<and> combined_mock_data (snd (simulate_career sf w pid sp)) = combined_mock_data w"
  by (simp add: simulate_career_def uuid4_def split: sum.splits)

lemma call_endpoint_frame:
  "users_db (snd (call_endpoint sf e w r)) = users_db w
   \<and> combined_mock_data (snd (call_endpoint sf e w r)) = combined_mock_data w"
proof (cases e)
  case E_login_for_access_token
  then show ?thesis
    by (simp add: login_for_access_token_def split: input.splits option.splits)
next
  case E_read_root
  then show ?thesis by (simp add: read_root_def)
next
  case E_submit_quiz
  then show ?thesis
    by (simp add: depends_def submit_quiz_def split: sum.splits input.splits)
next
  case E_get_career_recommendations
  then show ?thesis
    by (simp add: depends_def get_career_recommendations_def split: sum.splits input.splits)
next
  case E_get_career_trends
  then show ?thesis
    by (simp add: depends_def get_career_trends_def split: sum.splits)
next
  case E_generate_simulation
  then show ?thesis
    by (simp add: depends_def generate_simulation_def split: sum.splits)
next
  case E_get_career_trends'
  then show ?thesis
    by (simp add: get_career_trends'_def split: input.splits sum.splits)
next
  case E_read_root'
  then show ?thesis by (simp add: read_root'_def)
next
  case E_simulate_career
  then show ?thesis
    by (simp add: simulate_career_frame split: input.splits)
qed

lemma serve_frame:
  "users_db (snd (serve sf w r)) = users_db w
   \<and> combined_mock_data (snd (serve sf w r)) = combined_mock_data w"
  by (simp add: serve_def call_endpoint_frame split: option.splits)

lemma serve_all_frame:
  "users_db (serve_all sf w rs) = users_db w
   \<and> combined_mock_data (serve_all sf w rs) = combined_mock_data w"
  by (induction rs arbitrary: w) (simp_all add: serve_frame)

text \<open>
  C8.  No request, whatever its outcome, changes the user table or the loaded document:
  both are the same after one request and after any sequence of requests, so the table
  stays the seeded one for the life of the process.
\<close>

theorem state_read_only:
  "users_db (snd (serve sf w r)) = users_db w
   \<and> combined_mock_data (snd (serve sf w r)) = combined_mock_data w
   \<and> users_db (serve_all sf w rs) = users_db w
   \<and> combined_mock_data (serve_all sf w rs) = combined_mock_data w
   \<and> users_db (serve_all sf (startup file gen) rs) = seed_users"
  using serve_frame [of sf w r] serve_all_frame [of sf w rs]
    serve_all_frame [of sf "startup file gen" rs]
  by (simp add: startup_def)

end
